theory Spec2Isabelle
  imports Main "HOL-Library.Word" "HOL-Library.Signed_Division"
begin

unbundle bit_operations_syntax

section \<open>Go values\<close>

text \<open>
  A Go \<^verbatim>\<open>byte\<close> is an 8-bit word, a \<^verbatim>\<open>[]byte\<close> a list of them (a nil slice and an
  empty one are both the empty list; the code only ever asks for their length). Go's
  \<^verbatim>\<open>int\<close> and \<^verbatim>\<open>int64\<close> are 64-bit words read as two's complement, \<^verbatim>\<open>uint32\<close> is a
  32-bit word. An \<^verbatim>\<open>error\<close> is its message; \<^verbatim>\<open>nil\<close> is \<open>None\<close>.

  A Go function either returns, or stops in a run-time panic (an index or slice
  expression out of range), or ends the process (\<^verbatim>\<open>log.Fatalf\<close>).
\<close>

type_synonym byte = "8 word"
type_synonym error = string

datatype 'a outcome = Return 'a | Panic | Fatal

definition str :: "string \<Rightarrow> byte list" where
  "str s = map of_char s"

text \<open>\<^verbatim>\<open>a % b\<close> on \<^verbatim>\<open>int64\<close>: the remainder has the sign of the dividend.\<close>

definition rem64 :: "64 word \<Rightarrow> 64 word \<Rightarrow> 64 word" where
  "rem64 a b = word_of_int (sint a smod sint b)"

text \<open>\<^verbatim>\<open>binary.BigEndian\<close>: reading and writing fixed-width integers.\<close>

definition be_uint32 :: "byte list \<Rightarrow> 32 word" where
  "be_uint32 bs = foldl (\<lambda>acc b. push_bit 8 acc OR ucast b) 0 (take 4 bs)"

definition put_uint32 :: "32 word \<Rightarrow> byte list" where
  "put_uint32 w = [ucast (drop_bit 24 w), ucast (drop_bit 16 w), ucast (drop_bit 8 w), ucast w]"

definition put_uint64 :: "64 word \<Rightarrow> byte list" where
  "put_uint64 w = map (\<lambda>k. ucast (drop_bit k w)) [56, 48, 40, 32, 24, 16, 8, 0]"

section \<open>The digest: \<^verbatim>\<open>Hash\<close> (common.go), SHA-1 of \<^verbatim>\<open>crypto/sha1\<close>\<close>

definition rotl32 :: "nat \<Rightarrow> 32 word \<Rightarrow> 32 word" where
  "rotl32 n w = push_bit n w OR drop_bit (32 - n) w"

text \<open>Padding: the byte 0x80, zeros up to 56 modulo 64, the length in bits as \<^verbatim>\<open>uint64\<close>.\<close>

definition sha1_pad :: "byte list \<Rightarrow> byte list" where
  "sha1_pad m = m @ [0x80] @ replicate ((119 - length m mod 64) mod 64) 0
                  @ put_uint64 (push_bit 3 (of_nat (length m)))"

fun sha1_words :: "byte list \<Rightarrow> 32 word list" where
  "sha1_words (a # b # c # d # rest) = be_uint32 [a, b, c, d] # sha1_words rest"
| "sha1_words _ = []"

text \<open>The message schedule, newest word first: \<open>w\<^sub>i = rotl 1 (w\<^sub>i\<^sub>-\<^sub>3 XOR w\<^sub>i\<^sub>-\<^sub>8 XOR w\<^sub>i\<^sub>-\<^sub>1\<^sub>4 XOR w\<^sub>i\<^sub>-\<^sub>1\<^sub>6)\<close>.\<close>

fun sha1_expand :: "nat \<Rightarrow> 32 word list \<Rightarrow> 32 word list" where
  "sha1_expand 0 ws = ws"
| "sha1_expand (Suc n) ws =
     sha1_expand n (rotl32 1 (ws ! 2 XOR ws ! 7 XOR ws ! 13 XOR ws ! 15) # ws)"

type_synonym sha1_state = "32 word \<times> 32 word \<times> 32 word \<times> 32 word \<times> 32 word"

definition sha1_round ::
  "(32 word \<Rightarrow> 32 word \<Rightarrow> 32 word \<Rightarrow> 32 word) \<Rightarrow> 32 word \<Rightarrow> sha1_state \<Rightarrow> 32 word \<Rightarrow> sha1_state" where
  "sha1_round f k s w =
     (case s of (a, b, c, d, e) \<Rightarrow> (rotl32 5 a + f b c d + e + w + k, a, rotl32 30 b, c, d))"

definition sha1_ch :: "32 word \<Rightarrow> 32 word \<Rightarrow> 32 word \<Rightarrow> 32 word" where
  "sha1_ch b c d = (b AND c) OR (NOT b AND d)"

definition sha1_parity :: "32 word \<Rightarrow> 32 word \<Rightarrow> 32 word \<Rightarrow> 32 word" where
  "sha1_parity b c d = b XOR c XOR d"

definition sha1_maj :: "32 word \<Rightarrow> 32 word \<Rightarrow> 32 word \<Rightarrow> 32 word" where
  "sha1_maj b c d = ((b OR c) AND d) OR (b AND c)"

text \<open>Eighty rounds in four runs of twenty, each with its function and constant.\<close>

definition sha1_rounds :: "32 word list \<Rightarrow> sha1_state \<Rightarrow> sha1_state" where
  "sha1_rounds ws s =
     foldl (sha1_round sha1_parity 0xCA62C1D6)
       (foldl (sha1_round sha1_maj 0x8F1BBCDC)
         (foldl (sha1_round sha1_parity 0x6ED9EBA1)
           (foldl (sha1_round sha1_ch 0x5A827999) s (take 20 ws))
           (take 20 (drop 20 ws)))
         (take 20 (drop 40 ws)))
       (take 20 (drop 60 ws))"

definition sha1_block :: "sha1_state \<Rightarrow> byte list \<Rightarrow> sha1_state" where
  "sha1_block s blk =
     (case s of (h0, h1, h2, h3, h4) \<Rightarrow>
        case sha1_rounds (rev (sha1_expand 64 (rev (sha1_words blk)))) s of
          (a, b, c, d, e) \<Rightarrow> (h0 + a, h1 + b, h2 + c, h3 + d, h4 + e))"

fun sha1_blocks :: "nat \<Rightarrow> sha1_state \<Rightarrow> byte list \<Rightarrow> sha1_state" where
  "sha1_blocks 0 s m = s"
| "sha1_blocks (Suc n) s m = sha1_blocks n (sha1_block s (take 64 m)) (drop 64 m)"

definition sha1_sum :: "byte list \<Rightarrow> byte list" where
  "sha1_sum m =
     (let p = sha1_pad m in
      case sha1_blocks (length p div 64)
             (0x67452301, 0xEFCDAB89, 0x98BADCFE, 0x10325476, 0xC3D2E1F0) p of
        (a, b, c, d, e) \<Rightarrow> concat (map put_uint32 [a, b, c, d, e]))"

definition Hash :: "byte list \<Rightarrow> byte list" where
  "Hash data = sha1_sum data"

section \<open>Onion descriptors (oniondesc.go)\<close>

text \<open>
  \<^verbatim>\<open>rsa.PublicKey\<close> has a modulus and an exponent; the descriptor holds a pointer to one,
  \<open>None\<close> being \<^verbatim>\<open>nil\<close>. A \<^verbatim>\<open>time.Time\<close> built by \<^verbatim>\<open>time.Unix(s, 0)\<close> is the number \<open>s\<close> of
  seconds since the epoch.
\<close>

record PublicKey =
  N :: int
  E :: int

type_synonym Time = int

record OnionDescriptor =
  DescID :: "byte list"
  Version :: "64 word"
  PermanentKey :: "PublicKey option"
  SecretIDPart :: "byte list"
  PublicationTime :: Time
  ProtocolVersions :: "64 word list"
  IntropointsBlock :: "byte list"
  Signature :: "byte list"

definition MinReplica :: "64 word" where "MinReplica = 0"
definition MaxReplica :: "64 word" where "MaxReplica = 1"
definition DescVersion :: "64 word" where "DescVersion = 2"
definition ProtocolVersions_var :: "64 word list" where "ProtocolVersions_var = [2, 3]"

text \<open>
  The DER codec \<^verbatim>\<open>pkcs1.EncodePublicKeyDER\<close> is a package of the repository that is not
  among the sources: it is the parameter \<open>encodeDER\<close>, a function from the key pointer to
  an error or the encoding.
\<close>

type_synonym der_encoder = "PublicKey option \<Rightarrow> error + byte list"

definition RSAPubkeyHash :: "der_encoder \<Rightarrow> PublicKey option \<Rightarrow> error + byte list" where
  "RSAPubkeyHash encodeDER pk =
     (case encodeDER pk of Inl err \<Rightarrow> Inl err | Inr der \<Rightarrow> Inr (Hash der))"

text \<open>\<^verbatim>\<open>derHash[:10]\<close> panics on a slice of capacity below 10.\<close>

definition CalcPermanentID :: "der_encoder \<Rightarrow> PublicKey option \<Rightarrow> (error + byte list) outcome" where
  "CalcPermanentID encodeDER pk =
     (case RSAPubkeyHash encodeDER pk of
        Inl err \<Rightarrow> Return (Inl err)
      | Inr derHash \<Rightarrow> if 10 \<le> length derHash then Return (Inr (take 10 derHash)) else Panic)"

definition calcSecretID :: "byte list \<Rightarrow> 64 word \<Rightarrow> byte \<Rightarrow> byte list outcome" where
  "calcSecretID permID currentTime replica =
     (case permID of
        [] \<Rightarrow> Panic
      | p0 # _ \<Rightarrow>
          let permIDByte = (ucast p0 :: 32 word);
              timePeriodInt = ((ucast currentTime :: 32 word) + permIDByte * 86400 div 256) div 86400
          in Return (sha1_sum (put_uint32 timePeriodInt @ [replica])))"

definition calcDescriptorID :: "byte list \<Rightarrow> byte list \<Rightarrow> byte list" where
  "calcDescriptorID permID secretID = sha1_sum (permID @ secretID)"

text \<open>
  \<^verbatim>\<open>Update\<close> reads the clock: \<open>now\<close> is the value of \<^verbatim>\<open>time.Now().Unix()\<close>. The descriptor
  is changed in place, so the model returns it beside the error.
\<close>

definition Update ::
  "der_encoder \<Rightarrow> 64 word \<Rightarrow> OnionDescriptor \<Rightarrow> 64 word \<Rightarrow> (error option \<times> OnionDescriptor) outcome" where
  "Update encodeDER now desc replica =
     (let desc1 = desc\<lparr>Version := DescVersion, ProtocolVersions := ProtocolVersions_var\<rparr>;
          currentTime = now;
          roundedCurrentTime = currentTime - rem64 currentTime (60 * 60);
          desc2 = desc1\<lparr>PublicationTime := sint roundedCurrentTime\<rparr>
      in case CalcPermanentID encodeDER (PermanentKey desc2) of
           Panic \<Rightarrow> Panic
         | Fatal \<Rightarrow> Fatal
         | Return (Inl err) \<Rightarrow> Return (Some err, desc2)
         | Return (Inr permID) \<Rightarrow>
             if \<not> (MinReplica \<le>s replica \<or> replica \<le>s MaxReplica)
             then Return (Some ''Replica is out of range'', desc2)
             else (case calcSecretID permID currentTime (ucast replica) of
                     Panic \<Rightarrow> Panic
                   | Fatal \<Rightarrow> Fatal
                   | Return secretID \<Rightarrow>
                       let desc3 = desc2\<lparr>SecretIDPart := secretID\<rparr>;
                           desc4 = desc3\<lparr>DescID := calcDescriptorID permID (SecretIDPart desc3)\<rparr>
                       in Return (None, desc4)))"

text \<open>
  The three fields \<^verbatim>\<open>Update\<close> writes before it validates anything: the fixed version,
  the fixed protocol versions, and the clock rounded to the hour.
\<close>

definition Update_defaults :: "64 word \<Rightarrow> OnionDescriptor \<Rightarrow> OnionDescriptor" where
  "Update_defaults now desc =
     desc\<lparr>Version := DescVersion, ProtocolVersions := ProtocolVersions_var,
          PublicationTime := sint now - sint now smod 3600\<rparr>"

text \<open>
  The identifier derivation in the words of the specification (section 4.1): the time
  period \<open>(unixTime + firstByte * 86400 / 256) / 86400\<close> on unbounded integers, its
  4-byte big-endian serialization, and the two digests.
\<close>

definition firstByte :: "byte list \<Rightarrow> int" where
  "firstByte permanentId = (case permanentId of [] \<Rightarrow> 0 | b # _ \<Rightarrow> uint b)"

definition spec_timePeriod :: "int \<Rightarrow> int \<Rightarrow> int" where
  "spec_timePeriod unixTime fb = (unixTime + fb * 86400 div 256) div 86400"

definition BE32 :: "int \<Rightarrow> byte list" where
  "BE32 n = [of_int (n div 2 ^ 24), of_int (n div 2 ^ 16), of_int (n div 2 ^ 8), of_int n]"

definition spec_secretId :: "byte list \<Rightarrow> int \<Rightarrow> byte \<Rightarrow> byte list" where
  "spec_secretId permanentId unixTime replica =
     Hash (BE32 (spec_timePeriod unixTime (firstByte permanentId)) @ [replica])"

definition spec_descriptorId :: "byte list \<Rightarrow> int \<Rightarrow> byte \<Rightarrow> byte list" where
  "spec_descriptorId permanentId unixTime replica =
     Hash (permanentId @ spec_secretId permanentId unixTime replica)"

text \<open>
  The time period as the code computes it: the sum is taken in \<^verbatim>\<open>uint32\<close>, that is
  modulo \<open>2\<^sup>3\<^sup>2\<close>, before the division.
\<close>

definition uint32_timePeriod :: "int \<Rightarrow> int \<Rightarrow> int" where
  "uint32_timePeriod unixTime fb = ((unixTime + fb * 86400 div 256) mod 2 ^ 32) div 86400"

text \<open>
  Concrete inputs for the closed instances below: a small key, one point of a DER codec
  (the PKCS#1 encoding \<^verbatim>\<open>30 07 02 02 0C A1 02 01 11\<close> of that key, an error for every
  other key), and a descriptor that holds the key and Go's zero values elsewhere (the
  zero \<^verbatim>\<open>time.Time\<close> is the first second of year 1).
\<close>

definition sample_key :: PublicKey where
  "sample_key = \<lparr>N = 3233, E = 17\<rparr>"

definition sample_der :: "byte list" where
  "sample_der = [0x30, 0x07, 0x02, 0x02, 0x0C, 0xA1, 0x02, 0x01, 0x11]"

definition sample_encodeDER :: der_encoder where
  "sample_encodeDER pk =
     (if pk = Some sample_key then Inr sample_der else Inl ''asn1: structure error'')"

definition sample_desc :: OnionDescriptor where
  "sample_desc =
     \<lparr>DescID = [], Version = 0, PermanentKey = Some sample_key, SecretIDPart = [],
      PublicationTime = - 62135596800, ProtocolVersions = [], IntropointsBlock = [],
      Signature = []\<rparr>"

section \<open>Text encodings used by the serialization\<close>

text \<open>
  Text is a list of 8-bit characters. \<^verbatim>\<open>strings.ToLower\<close> and \<^verbatim>\<open>strings.ToUpper\<close> are
  modelled on ASCII, which is all that \<^verbatim>\<open>Base32Encode\<close> produces; characters from 0x80
  on are left as they are.
\<close>

definition nl :: string where
  "nl = [CHR 0x0A]"

definition cr :: string where
  "cr = [CHR 0x0D]"

definition upper_case :: string where
  "upper_case = ''ABCDEFGHIJKLMNOPQRSTUVWXYZ''"

definition lower_case :: string where
  "lower_case = ''abcdefghijklmnopqrstuvwxyz''"

definition ToLower :: "string \<Rightarrow> string" where
  "ToLower s = map (\<lambda>c. case map_of (zip upper_case lower_case) c of None \<Rightarrow> c | Some l \<Rightarrow> l) s"

definition ToUpper :: "string \<Rightarrow> string" where
  "ToUpper s = map (\<lambda>c. case map_of (zip lower_case upper_case) c of None \<Rightarrow> c | Some u \<Rightarrow> u) s"

subsection \<open>\<^verbatim>\<open>encoding/base32\<close>, the standard encoding with padding\<close>

definition encodeStd :: string where
  "encodeStd = ''ABCDEFGHIJKLMNOPQRSTUVWXYZ234567''"

definition b32_char :: "byte \<Rightarrow> char" where
  "b32_char v = encodeStd ! unat (v AND 0x1F)"

text \<open>The eight 5-bit groups of a 5-byte quantum, as \<^verbatim>\<open>Encode\<close> unpacks them.\<close>

definition b32_quantum :: "byte \<Rightarrow> byte \<Rightarrow> byte \<Rightarrow> byte \<Rightarrow> byte \<Rightarrow> byte list" where
  "b32_quantum s0 s1 s2 s3 s4 =
     [drop_bit 3 s0,
      (push_bit 2 s0 AND 0x1F) OR (drop_bit 6 s1 AND 0x1F),
      drop_bit 1 s1 AND 0x1F,
      (push_bit 4 s1 AND 0x1F) OR (drop_bit 4 s2 AND 0x1F),
      (push_bit 1 s2 AND 0x1F) OR drop_bit 7 s3,
      drop_bit 2 s3 AND 0x1F,
      (push_bit 3 s3 AND 0x1F) OR drop_bit 5 s4,
      s4 AND 0x1F]"

text \<open>A final quantum of 1, 2, 3 or 4 bytes gives 2, 4, 5 or 7 characters and padding.\<close>

fun b32_encode :: "byte list \<Rightarrow> string" where
  "b32_encode (s0 # s1 # s2 # s3 # s4 # rest) =
     map b32_char (b32_quantum s0 s1 s2 s3 s4) @ b32_encode rest"
| "b32_encode [s0, s1, s2, s3] = take 7 (map b32_char (b32_quantum s0 s1 s2 s3 0)) @ ''=''"
| "b32_encode [s0, s1, s2] = take 5 (map b32_char (b32_quantum s0 s1 s2 0 0)) @ ''===''"
| "b32_encode [s0, s1] = take 4 (map b32_char (b32_quantum s0 s1 0 0 0)) @ ''====''"
| "b32_encode [s0] = take 2 (map b32_char (b32_quantum s0 0 0 0 0)) @ ''======''"
| "b32_encode [] = []"

definition Base32Encode :: "byte list \<Rightarrow> string" where
  "Base32Encode binary = ToLower (b32_encode binary)"

subsection \<open>\<^verbatim>\<open>encoding/base64\<close> and \<^verbatim>\<open>encoding/pem\<close>\<close>

definition encodeStd64 :: string where
  "encodeStd64 = ''ABCDEFGHIJKLMNOPQRSTUVWXYZabcdefghijklmnopqrstuvwxyz0123456789+/''"

definition b64_char :: "32 word \<Rightarrow> char" where
  "b64_char v = encodeStd64 ! unat (v AND 0x3F)"

fun b64_encode :: "byte list \<Rightarrow> string" where
  "b64_encode (a # b # c # rest) =
     (let val = push_bit 16 (ucast a) OR push_bit 8 (ucast b) OR ucast c
      in [b64_char (drop_bit 18 val), b64_char (drop_bit 12 val),
          b64_char (drop_bit 6 val), b64_char val] @ b64_encode rest)"
| "b64_encode [a, b] =
     (let val = push_bit 16 (ucast a) OR push_bit 8 (ucast b)
      in [b64_char (drop_bit 18 val), b64_char (drop_bit 12 val),
          b64_char (drop_bit 6 val)] @ ''='')"
| "b64_encode [a] =
     (let val = push_bit 16 (ucast a)
      in [b64_char (drop_bit 18 val), b64_char (drop_bit 12 val)] @ ''=='')"
| "b64_encode [] = []"

text \<open>The PEM line breaker: lines of 64 characters, each ended by a newline.\<close>

fun pem_lines :: "nat \<Rightarrow> string \<Rightarrow> string" where
  "pem_lines 0 s = []"
| "pem_lines (Suc n) s = (if s = [] then [] else take 64 s @ nl @ pem_lines n (drop 64 s))"

definition pem_EncodeToMemory :: "string \<Rightarrow> byte list \<Rightarrow> string" where
  "pem_EncodeToMemory typ bytes =
     ''-----BEGIN '' @ typ @ ''-----'' @ nl @
     pem_lines (length (b64_encode bytes)) (b64_encode bytes) @
     ''-----END '' @ typ @ ''-----'' @ nl"

subsection \<open>\<^verbatim>\<open>fmt\<close>: the verb \<^verbatim>\<open>%d\<close> and \<^verbatim>\<open>strings.Join\<close>\<close>

definition digit :: "nat \<Rightarrow> char" where
  "digit n = ''0123456789'' ! (n mod 10)"

fun decimal :: "nat \<Rightarrow> string" where
  "decimal n = (if n < 10 then [digit n] else decimal (n div 10) @ [digit (n mod 10)])"

definition format_int :: "64 word \<Rightarrow> string" where
  "format_int v = (if sint v < 0 then ''-'' @ decimal (nat (- sint v)) else decimal (nat (sint v)))"

fun Join :: "string list \<Rightarrow> string \<Rightarrow> string" where
  "Join [] sep = []"
| "Join [s] sep = s"
| "Join (s # t # rest) sep = s @ sep @ Join (t # rest) sep"

section \<open>Serialization, signing and verification (oniondesc.go)\<close>

text \<open>
  \<^verbatim>\<open>Bytes\<close> ends the process when the key does not encode. The layout of a
  \<^verbatim>\<open>time.Time\<close> as text depends on the location of the value (\<^verbatim>\<open>time.Unix\<close> gives the
  local one): the formatter for the layout \<^verbatim>\<open>2006-01-02 15:04:05\<close> is the parameter
  \<open>formatTime\<close>.
\<close>

type_synonym time_formatter = "Time \<Rightarrow> string"

definition Bytes :: "der_encoder \<Rightarrow> time_formatter \<Rightarrow> OnionDescriptor \<Rightarrow> byte list outcome" where
  "Bytes encodeDER formatTime desc =
     (case encodeDER (PermanentKey desc) of
        Inl err \<Rightarrow> Fatal
      | Inr permPubKeyDER \<Rightarrow>
          Return (str (
            ''rendezvous-service-descriptor '' @ Base32Encode (DescID desc) @ nl @
            ''version '' @ format_int (Version desc) @ nl @
            ''permanent-key'' @ nl @ pem_EncodeToMemory ''RSA PUBLIC KEY'' permPubKeyDER @
            ''secret-id-part '' @ Base32Encode (SecretIDPart desc) @ nl @
            ''publication-time '' @ formatTime (PublicationTime desc) @ nl @
            ''protocol-versions '' @ Join (map format_int (ProtocolVersions desc)) '','' @ nl @
            (if 0 < length (IntropointsBlock desc)
             then ''introduction-points'' @ nl @ pem_EncodeToMemory ''MESSAGE'' (IntropointsBlock desc)
             else []) @
            ''signature'' @ nl @
            (if 0 < length (Signature desc)
             then pem_EncodeToMemory ''SIGNATURE'' (Signature desc)
             else []))))"

text \<open>The signing callback: from the digest to an error or the signature.\<close>

type_synonym signer = "byte list \<Rightarrow> error + byte list"

definition Sign ::
  "der_encoder \<Rightarrow> time_formatter \<Rightarrow> signer \<Rightarrow> OnionDescriptor \<Rightarrow> (error option \<times> OnionDescriptor) outcome" where
  "Sign encodeDER formatTime doSign desc =
     (case Bytes encodeDER formatTime desc of
        Panic \<Rightarrow> Panic
      | Fatal \<Rightarrow> Fatal
      | Return bs \<Rightarrow>
          let descDigest = Hash bs
          in case doSign descDigest of
               Inl err \<Rightarrow> Return (Some err, desc)
             | Inr signature \<Rightarrow> Return (None, desc\<lparr>Signature := signature\<rparr>))"

text \<open>
  \<^verbatim>\<open>rsa.VerifyPKCS1v15 (key, hash, digest, signature)\<close> of the standard library is the
  parameter \<open>verifyPKCS1v15\<close>; the code passes the hash identifier 0.
\<close>

type_synonym verifier = "PublicKey option \<Rightarrow> nat \<Rightarrow> byte list \<Rightarrow> byte list \<Rightarrow> error option"

definition VerifySignature ::
  "der_encoder \<Rightarrow> time_formatter \<Rightarrow> verifier \<Rightarrow> OnionDescriptor \<Rightarrow> (error option \<times> OnionDescriptor) outcome" where
  "VerifySignature encodeDER formatTime verifyPKCS1v15 desc =
     (let signature = Signature desc;
          desc1 = desc\<lparr>Signature := []\<rparr>
      in case Bytes encodeDER formatTime desc1 of
           Panic \<Rightarrow> Panic
         | Fatal \<Rightarrow> Fatal
         | Return bs \<Rightarrow>
             let descDigest = Hash bs;
                 desc2 = desc1\<lparr>Signature := signature\<rparr>
             in Return (verifyPKCS1v15 (PermanentKey desc2) 0 descDigest signature, desc2))"

text \<open>
  Concrete parameters for the closed instances below. The formatter is the layout
  \<^verbatim>\<open>2006-01-02 15:04:05\<close> in the location UTC (days since 1 March of year 0 to a civil
  date by 400-year eras, then two-digit fields). The signing callback that returns the digest itself, with the verifier that
  accepts exactly the signature equal to the digest, is a correct pair in which the digest
  that was signed can be read off the signature.
\<close>

definition pad2 :: "int \<Rightarrow> string" where
  "pad2 n = [digit (nat n div 10), digit (nat n)]"

definition pad4 :: "int \<Rightarrow> string" where
  "pad4 y = (if y < 0 then ''-'' else []) @
            replicate (4 - length (decimal (nat \<bar>y\<bar>))) (CHR ''0'') @ decimal (nat \<bar>y\<bar>)"

definition civil_yoe :: "int \<Rightarrow> int" where
  "civil_yoe doe = (doe - doe div 1460 + doe div 36524 - doe div 146096) div 365"

definition civil_doy :: "int \<Rightarrow> int" where
  "civil_doy doe = doe - (365 * civil_yoe doe + civil_yoe doe div 4 - civil_yoe doe div 100)"

definition civil_mp :: "int \<Rightarrow> int" where
  "civil_mp doe = (5 * civil_doy doe + 2) div 153"

definition civil_day :: "int \<Rightarrow> int" where
  "civil_day z = civil_doy (z mod 146097) - (153 * civil_mp (z mod 146097) + 2) div 5 + 1"

definition civil_month :: "int \<Rightarrow> int" where
  "civil_month z = (if civil_mp (z mod 146097) < 10 then civil_mp (z mod 146097) + 3
                    else civil_mp (z mod 146097) - 9)"

definition civil_year :: "int \<Rightarrow> int" where
  "civil_year z = civil_yoe (z mod 146097) + (z div 146097) * 400 +
                  (if civil_month z \<le> 2 then 1 else 0)"

definition utc_format :: time_formatter where
  "utc_format t =
     pad4 (civil_year (t div 86400 + 719468)) @ ''-'' @
     pad2 (civil_month (t div 86400 + 719468)) @ ''-'' @
     pad2 (civil_day (t div 86400 + 719468)) @ '' '' @
     pad2 (t mod 86400 div 3600) @ '':'' @ pad2 (t mod 86400 mod 3600 div 60) @ '':'' @
     pad2 (t mod 86400 mod 60)"

definition echo_sign :: signer where
  "echo_sign digest = Inr digest"

definition echo_verify :: verifier where
  "echo_verify pub hash hashed sig =
     (if sig = hashed then None else Some ''crypto/rsa: verification error'')"

text \<open>
  The serialization of the sample descriptor without a signature, its digest, the PEM
  block of that digest as a signature, and the digest of the serialization with that
  block appended.
\<close>

definition sample_text :: string where
  "sample_text =
     ''rendezvous-service-descriptor '' @ nl @ ''version 0'' @ nl @ ''permanent-key'' @ nl @
     ''-----BEGIN RSA PUBLIC KEY-----'' @ nl @ ''MAcCAgyhAgER'' @ nl @
     ''-----END RSA PUBLIC KEY-----'' @ nl @ ''secret-id-part '' @ nl @
     ''publication-time 0001-01-01 00:00:00'' @ nl @ ''protocol-versions '' @ nl @
     ''signature'' @ nl"

definition sample_digest :: "byte list" where
  "sample_digest = [232, 126, 58, 206, 156, 205, 188, 91, 126, 42, 154, 108, 195, 88, 231, 106, 46, 232, 219, 52]"

definition sample_signature_pem :: string where
  "sample_signature_pem =
     ''-----BEGIN SIGNATURE-----'' @ nl @ ''6H46zpzNvFt+Kppsw1jnai7o2zQ='' @ nl @
     ''-----END SIGNATURE-----'' @ nl"

definition sample_digest2 :: "byte list" where
  "sample_digest2 = [162, 66, 55, 32, 180, 130, 244, 92, 11, 18, 34, 221, 127, 66, 85, 33, 233, 111, 159, 124]"

(*DEFS-END*)

section \<open>Properties of \<^verbatim>\<open>Update\<close>\<close>

lemma smod_3600_nonneg:
  fixes k :: int
  shows "0 \<le> k \<Longrightarrow> 0 \<le> k smod 3600 \<and> k smod 3600 \<le> k \<and> k smod 3600 < 3600"
  by (simp add: signed_modulo_int_def sgn_if zmod_le_nonneg_dividend)

lemma smod_3600_nonpos:
  fixes k :: int
  assumes k: "k \<le> 0"
  shows "k \<le> k smod 3600 \<and> k smod 3600 \<le> 0 \<and> - 3600 < k smod 3600"
proof -
  have "(- k) mod 3600 \<le> - k" using k by (simp add: zmod_le_nonneg_dividend)
  moreover have "(- k) mod 3600 < 3600" "0 \<le> (- k) mod 3600" by simp_all
  ultimately show ?thesis using k
    by (auto simp add: signed_modulo_int_def sgn_if)
qed

lemma sint_rem64_hour:
  fixes t :: "64 word"
  shows "sint (rem64 t 3600) = sint t smod 3600"
proof -
  have r: "- 3600 < sint t smod 3600 \<and> sint t smod 3600 < 3600"
    using smod_3600_nonneg [of "sint t"] smod_3600_nonpos [of "sint t"]
    by (cases "0 \<le> sint t") auto
  have "sint (rem64 t 3600) = signed_take_bit 63 (sint t smod 3600)"
    by (simp add: rem64_def sint_sbintrunc')
  also have "\<dots> = sint t smod 3600"
    using r by (intro signed_take_bit_int_eq_self) auto
  finally show ?thesis .
qed

lemma sint_round_hour:
  fixes t :: "64 word"
  shows "sint (t - rem64 t 3600) = sint t - sint t smod 3600"
proof -
  have lo: "- (2 ^ 63) \<le> sint t" and hi: "sint t < 2 ^ 63"
    using sint_ge [of t] sint_lt [of t] by simp_all
  have "sint (t - rem64 t 3600) = signed_take_bit 63 (sint t - sint t smod 3600)"
    by (simp add: sint_word_diff sint_rem64_hour)
  also have "\<dots> = sint t - sint t smod 3600"
  proof (rule signed_take_bit_int_eq_self)
    show "- (2 ^ 63) \<le> sint t - sint t smod 3600"
      using smod_3600_nonneg [of "sint t"] smod_3600_nonpos [of "sint t"] lo
      by (cases "0 \<le> sint t") auto
    show "sint t - sint t smod 3600 < 2 ^ 63"
      using smod_3600_nonneg [of "sint t"] smod_3600_nonpos [of "sint t"] hi
      by (cases "0 \<le> sint t") auto
  qed
  finally show ?thesis .
qed

lemma hour_multiple: "((k::int) - k smod 3600) mod 3600 = 0"
  by (simp add: minus_smod_eq_sdiv_mult)

lemma hour_distance: "\<bar>(k::int) smod 3600\<bar> < 3600"
  using smod_3600_nonneg [of k] smod_3600_nonpos [of k] by (cases "0 \<le> k") auto

lemma hour_floor: "0 \<le> (k::int) \<Longrightarrow> k - k smod 3600 = k div 3600 * 3600"
  by (simp add: signed_modulo_int_def sgn_if minus_mod_eq_div_mult)

lemma sha1_sum_length: "length (sha1_sum m) = 20"
  by (simp add: sha1_sum_def put_uint32_def Let_def split: prod.splits)

lemma Hash_length: "length (Hash m) = 20"
  by (simp add: Hash_def sha1_sum_length)

lemma CalcPermanentID_eq:
  "CalcPermanentID encodeDER pk =
     Return (case encodeDER pk of Inl err \<Rightarrow> Inl err | Inr der \<Rightarrow> Inr (take 10 (Hash der)))"
  by (auto simp add: CalcPermanentID_def RSAPubkeyHash_def Hash_length split: sum.splits)

lemma replica_test_never_fires: "MinReplica \<le>s replica \<or> replica \<le>s MaxReplica"
  by (auto simp add: MinReplica_def MaxReplica_def word_sle_eq)

lemma take10_Hash_Cons: "\<exists>p0 ps. take 10 (Hash der) = p0 # ps"
proof -
  have "length (take 10 (Hash der)) = 10" by (simp add: Hash_length)
  then show ?thesis by (cases "take 10 (Hash der)") auto
qed

lemma Update_encode_error:
  assumes "encodeDER (PermanentKey desc) = Inl err"
  shows "Update encodeDER now desc replica = Return (Some err, Update_defaults now desc)"
  using assms
  by (simp add: Update_def Update_defaults_def CalcPermanentID_eq sint_round_hour)

lemma Update_encode_ok:
  assumes "encodeDER (PermanentKey desc) = Inr der"
  shows "\<exists>secretID. calcSecretID (take 10 (Hash der)) now (ucast replica) = Return secretID \<and>
           Update encodeDER now desc replica =
             Return (None, (Update_defaults now desc)
               \<lparr>SecretIDPart := secretID,
                DescID := calcDescriptorID (take 10 (Hash der)) secretID\<rparr>)"
proof -
  obtain p0 ps where p: "take 10 (Hash der) = p0 # ps"
    using take10_Hash_Cons by blast
  show ?thesis
    using assms replica_test_never_fires [of replica]
    by (simp add: Update_def Update_defaults_def CalcPermanentID_eq sint_round_hour p
        calcSecretID_def Let_def)
qed

lemma Update_returns:
  "\<exists>err desc'. Update encodeDER now desc replica = Return (err, desc') \<and>
     PublicationTime desc' = sint now - sint now smod 3600 \<and>
     Version desc' = DescVersion \<and> ProtocolVersions desc' = ProtocolVersions_var"
proof (cases "encodeDER (PermanentKey desc)")
  case (Inl err)
  then show ?thesis
    by (simp add: Update_encode_error Update_defaults_def)
next
  case (Inr der)
  then show ?thesis
    using Update_encode_ok [of encodeDER desc der now replica]
    by (auto simp add: Update_defaults_def)
qed

lemma uint_drop_bit_div: "uint (drop_bit n w) = uint w div 2 ^ n"
proof -
  have "uint (drop_bit n w) = drop_bit n (take_bit LENGTH('a) (uint w))"
    by (rule unsigned_drop_bit_eq)
  also have "take_bit LENGTH('a) (uint w) = uint w"
    by (rule bintr_uint) simp
  finally show ?thesis
    by (simp only: drop_bit_eq_div)
qed

lemma put_uint32_BE32: "put_uint32 w = BE32 (uint w)"
  unfolding put_uint32_def BE32_def
  by (simp only: ucast_eq uint_drop_bit_div)

lemma uint_ucast_now:
  fixes now :: "64 word"
  shows "uint (ucast now :: 32 word) = sint now mod 2 ^ 32"
proof -
  have "uint (ucast now :: 32 word) = take_bit 32 (uint now)"
    by (simp add: unsigned_ucast_eq)
  also have "\<dots> = take_bit 32 (take_bit 64 (sint now))"
    by (simp add: uint_sint)
  also have "\<dots> = take_bit 32 (sint now)"
    by simp
  finally show ?thesis
    by (simp only: take_bit_eq_mod)
qed

lemma uint_permIDByte:
  fixes p0 :: byte
  shows "uint ((ucast p0 :: 32 word) * 86400 div 256) = uint p0 * 86400 div 256"
proof -
  have p: "0 \<le> uint p0" "uint p0 < 256"
    using uint_lt2p [of p0] by simp_all
  have u: "uint (ucast p0 :: 32 word) = uint p0"
    using p by (simp add: unsigned_ucast_eq take_bit_eq_mod)
  have "uint ((ucast p0 :: 32 word) * 86400) = uint p0 * 86400 mod 2 ^ 32"
    by (simp add: uint_word_ariths u)
  also have "\<dots> = uint p0 * 86400"
    using p by simp
  finally have m: "uint ((ucast p0 :: 32 word) * 86400) = uint p0 * 86400" .
  have "uint ((ucast p0 :: 32 word) * 86400 div 256) = uint ((ucast p0 :: 32 word) * 86400) div uint (256 :: 32 word)"
    by (rule uint_div)
  also have "\<dots> = uint p0 * 86400 div 256"
    by (simp only: m) simp
  finally show ?thesis .
qed

lemma uint_timePeriodInt:
  fixes now :: "64 word" and p0 :: byte
  shows "uint (((ucast now :: 32 word) + (ucast p0 :: 32 word) * 86400 div 256) div 86400) =
         ((sint now mod 2 ^ 32 + uint p0 * 86400 div 256) mod 2 ^ 32) div 86400"
proof -
  have "uint (((ucast now :: 32 word) + (ucast p0 :: 32 word) * 86400 div 256) div 86400) =
        uint ((ucast now :: 32 word) + (ucast p0 :: 32 word) * 86400 div 256) div uint (86400 :: 32 word)"
    by (rule uint_div)
  also have "uint ((ucast now :: 32 word) + (ucast p0 :: 32 word) * 86400 div 256) =
             (uint (ucast now :: 32 word) + uint ((ucast p0 :: 32 word) * 86400 div 256)) mod 2 ^ 32"
    by (simp only: uint_word_ariths) simp
  also have "uint (86400 :: 32 word) = 86400"
    by simp
  finally show ?thesis
    by (simp only: uint_ucast_now uint_permIDByte)
qed

lemma firstByte_bounds: "0 \<le> firstByte p \<and> firstByte p < 256"
  using uint_lt2p [where 'a = 8] by (auto simp add: firstByte_def split: list.splits)

subsection \<open>Evaluating the digest on concrete messages\<close>

text \<open>
  The simplifier does not reduce 32-bit numerals modulo \<open>2\<^sup>3\<^sup>2\<close> by itself; these
  equations make each round produce a reduced word.
\<close>

lemma sha1_round_eval:
  "sha1_round f k (a, b, c, d, e) w =
     (take_bit 32 (rotl32 5 a + f b c d + e + w + k), a, take_bit 32 (rotl32 30 b), c, d)"
  unfolding sha1_round_def by (simp add: take_bit_word_eq_self)

lemma sha1_expand_eval:
  "sha1_expand (numeral k) ws =
     sha1_expand (pred_numeral k)
       (take_bit 32 (rotl32 1 (ws ! 2 XOR ws ! 7 XOR ws ! 13 XOR ws ! 15)) # ws)"
  by (simp add: numeral_eq_Suc take_bit_word_eq_self)

lemma sha1_block_eval:
  "sha1_block (h0, h1, h2, h3, h4) blk =
     (case sha1_rounds (rev (sha1_expand 64 (rev (sha1_words blk)))) (h0, h1, h2, h3, h4) of
        (a, b, c, d, e) \<Rightarrow>
          (take_bit 32 (h0 + a), take_bit 32 (h1 + b), take_bit 32 (h2 + c),
           take_bit 32 (h3 + d), take_bit 32 (h4 + e)))"
  unfolding sha1_block_def by (simp add: take_bit_word_eq_self split: prod.splits)

lemma sha1_blocks_eval:
  "sha1_blocks (numeral k) s m = sha1_blocks (pred_numeral k) (sha1_block s (take 64 m)) (drop 64 m)"
  by (simp add: numeral_eq_Suc)

lemma replicate_eval: "replicate (numeral k) x = x # replicate (pred_numeral k) x"
  by (simp add: numeral_eq_Suc)

lemmas sha1_eval = replicate_eval sha1_sum_def sha1_pad_def put_uint64_def put_uint32_def
  be_uint32_def sha1_expand_eval sha1_blocks_eval sha1_block_eval rotl32_def sha1_rounds_def
  sha1_round_eval sha1_ch_def sha1_maj_def sha1_parity_def

lemma Hash_sample_der:
  "Hash sample_der = [234, 167, 212, 167, 156, 215, 110, 186, 97, 181, 225, 120, 132, 140, 123, 80, 14, 227, 42, 221]"
  unfolding Hash_def sample_der_def by (simp add: sha1_eval)

lemma secret_code_2106:
  "sha1_sum [0, 0, 0, 0, 0] = [161, 9, 9, 194, 205, 202, 245, 173, 183, 230, 176, 146, 164, 250, 186, 85, 139, 98, 189, 150]"
  by (simp add: sha1_eval)

lemma secret_spec_2106:
  "sha1_sum [0, 0, 194, 47, 0] = [174, 14, 170, 128, 141, 142, 65, 255, 205, 152, 29, 59, 17, 54, 233, 67, 129, 228, 58, 155]"
  by (simp add: sha1_eval)

lemma id_code_2106:
  "sha1_sum [234, 167, 212, 167, 156, 215, 110, 186, 97, 181,
      161, 9, 9, 194, 205, 202, 245, 173, 183, 230, 176, 146, 164, 250, 186, 85, 139, 98, 189, 150] =
   [110, 201, 113, 180, 4, 113, 184, 230, 50, 17, 101, 53, 24, 232, 11, 200, 11, 223, 123, 221]"
  by (simp add: sha1_eval)

lemma id_spec_2106:
  "sha1_sum [234, 167, 212, 167, 156, 215, 110, 186, 97, 181,
      174, 14, 170, 128, 141, 142, 65, 255, 205, 152, 29, 59, 17, 54, 233, 67, 129, 228, 58, 155] =
   [221, 97, 225, 214, 113, 93, 14, 8, 158, 125, 205, 177, 1, 246, 19, 158, 129, 85, 189, 125]"
  by (simp add: sha1_eval)

lemma calcSecretID_2106:
  "calcSecretID [234, 167, 212, 167, 156, 215, 110, 186, 97, 181] 4294967296 0 =
     Return [161, 9, 9, 194, 205, 202, 245, 173, 183, 230, 176, 146, 164, 250, 186, 85, 139, 98, 189, 150]"
  by (simp add: calcSecretID_def put_uint32_def secret_code_2106)

lemma BE32_eval:
  "BE32 n = [take_bit 8 (of_int (n div 2 ^ 24)), take_bit 8 (of_int (n div 2 ^ 16)),
             take_bit 8 (of_int (n div 2 ^ 8)), take_bit 8 (of_int n)]"
  by (simp add: BE32_def take_bit_word_eq_self)

lemma spec_secretId_2106:
  "spec_secretId [234, 167, 212, 167, 156, 215, 110, 186, 97, 181] 4294967296 0 =
     [174, 14, 170, 128, 141, 142, 65, 255, 205, 152, 29, 59, 17, 54, 233, 67, 129, 228, 58, 155]"
  by (simp add: spec_secretId_def firstByte_def spec_timePeriod_def BE32_eval Hash_def secret_spec_2106)

lemma calcSecretID_length: "calcSecretID p t r = Return s \<Longrightarrow> length s = 20"
  by (auto simp add: calcSecretID_def Let_def sha1_sum_length split: list.splits)

lemma hour_bracket_nonneg:
  "0 \<le> (k::int) \<Longrightarrow> k - k smod 3600 \<le> k \<and> k < k - k smod 3600 + 3600"
  using smod_3600_nonneg [of k] by auto

lemma hour_bracket_neg:
  "(k::int) < 0 \<Longrightarrow> k \<le> k - k smod 3600 \<and> k - k smod 3600 < k + 3600"
  using smod_3600_nonpos [of k] by auto

text \<open>
  Claim C9, as the code has it. Whatever the clock \<open>t\<close>, the key and the replica,
  \<^verbatim>\<open>Update\<close> returns and the publication time it has stored is \<open>t - t % 3600\<close> with
  Go's remainder, an exact hour boundary (a multiple of 3600 seconds). For a clock at or
  after the epoch it is the last hour boundary at or before the clock: the sub-hour
  remainder is discarded (12:34:56 gives 12:00:00). For a clock before the epoch the
  remainder is negative and the stored time is the first hour boundary at or after the
  clock (12:34:56 on 31 December 1969 gives 13:00:00).
\<close>

theorem Update_publication_time_hour:
  "\<exists>err desc'. Update encodeDER now desc replica = Return (err, desc') \<and>
     PublicationTime desc' = sint now - sint now smod 3600 \<and>
     PublicationTime desc' mod 3600 = 0 \<and>
     (0 \<le> sint now \<longrightarrow>
        PublicationTime desc' \<le> sint now \<and> sint now < PublicationTime desc' + 3600) \<and>
     (sint now < 0 \<longrightarrow>
        sint now \<le> PublicationTime desc' \<and> PublicationTime desc' < sint now + 3600)"
proof -
  obtain err desc' where u: "Update encodeDER now desc replica = Return (err, desc')"
    and p: "PublicationTime desc' = sint now - sint now smod 3600"
    using Update_returns [of encodeDER now desc replica] by blast
  have a: "PublicationTime desc' mod 3600 = 0"
    using p hour_multiple [of "sint now"] by simp
  have b: "0 \<le> sint now \<longrightarrow>
        PublicationTime desc' \<le> sint now \<and> sint now < PublicationTime desc' + 3600"
    using hour_bracket_nonneg [of "sint now"] unfolding p by blast
  have c: "sint now < 0 \<longrightarrow>
        sint now \<le> PublicationTime desc' \<and> PublicationTime desc' < sint now + 3600"
    using hour_bracket_neg [of "sint now"] unfolding p by blast
  show ?thesis
    by (rule exI [of _ err], rule exI [of _ desc']) (intro conjI u p a b c)
qed

text \<open>
  The sample descriptor at 12:34:56 on 1 January 1970 (stored: 12:00:00) and at 12:34:56
  on 31 December 1969 (stored: 13:00:00).
\<close>

theorem Update_publication_time_hour_witness:
  "0 \<le> sint (45296 :: 64 word) \<and>
   (\<exists>err desc'. Update sample_encodeDER 45296 sample_desc 0 = Return (err, desc') \<and>
      PublicationTime desc' = 43200 \<and> PublicationTime desc' \<le> 45296) \<and>
   sint (- 41104 :: 64 word) < 0 \<and>
   (\<exists>err desc'. Update sample_encodeDER (- 41104) sample_desc 0 = Return (err, desc') \<and>
      PublicationTime desc' = - 39600 \<and> - 41104 \<le> PublicationTime desc')"
proof -
  have a: "\<exists>err desc'. Update sample_encodeDER 45296 sample_desc 0 = Return (err, desc') \<and>
      PublicationTime desc' = 43200 \<and> PublicationTime desc' \<le> 45296"
    using Update_publication_time_hour [of sample_encodeDER 45296 sample_desc 0]
    by (auto simp add: signed_modulo_int_def)
  have b: "\<exists>err desc'. Update sample_encodeDER (- 41104) sample_desc 0 = Return (err, desc') \<and>
      PublicationTime desc' = - 39600 \<and> - 41104 \<le> PublicationTime desc'"
    using Update_publication_time_hour [of sample_encodeDER "- 41104" sample_desc 0]
    by (auto simp add: signed_modulo_int_def)
  show ?thesis
    using a b by simp
qed

text \<open>
  Claim C9 as stated fails before the epoch: at 12:34:56 on 31 December 1969 (clock
  \<open>-41104\<close>) the call succeeds and stores \<open>-39600\<close>, which is 13:00:00 of that day, not
  12:00:00: the remainder \<open>-1504\<close> is subtracted, so the clock is rounded up.
\<close>

theorem Update_publication_time_counterexample:
  "\<exists>desc'. Update sample_encodeDER (- 41104) sample_desc 0 = Return (None, desc') \<and>
     sint (- 41104 :: 64 word) mod 86400 = 12 * 3600 + 34 * 60 + 56 \<and>
     PublicationTime desc' = - 39600 \<and>
     PublicationTime desc' mod 86400 = 13 * 3600 \<and>
     PublicationTime desc' \<noteq> sint (- 41104 :: 64 word) div 3600 * 3600 \<and>
     sint (- 41104 :: 64 word) < PublicationTime desc'"
proof -
  have e: "sample_encodeDER (PermanentKey sample_desc) = Inr sample_der"
    by (simp add: sample_encodeDER_def sample_desc_def)
  show ?thesis
    using Update_encode_ok [of sample_encodeDER sample_desc sample_der "- 41104" 0] e
    by (auto simp add: Update_defaults_def signed_modulo_int_def)
qed

lemma calcSecretID_uint32:
  assumes "permID \<noteq> []"
  shows "calcSecretID permID now replica =
           Return (Hash (BE32 (uint32_timePeriod (sint now) (firstByte permID)) @ [replica]))"
proof -
  obtain p0 ps where p: "permID = p0 # ps"
    using assms by (cases permID) auto
  have "uint (((ucast now :: 32 word) + (ucast p0 :: 32 word) * 86400 div 256) div 86400) =
        ((sint now mod 2 ^ 32 + uint p0 * 86400 div 256) mod 2 ^ 32) div 86400"
    by (rule uint_timePeriodInt)
  also have "(sint now mod 2 ^ 32 + uint p0 * 86400 div 256) mod 2 ^ 32 =
             (sint now + uint p0 * 86400 div 256) mod 2 ^ 32"
    by (rule mod_add_left_eq)
  finally have "put_uint32 (((ucast now :: 32 word) + (ucast p0 :: 32 word) * 86400 div 256) div 86400) =
        BE32 (uint32_timePeriod (sint now) (uint p0))"
    by (simp only: put_uint32_BE32 uint32_timePeriod_def)
  then show ?thesis
    by (simp add: calcSecretID_def p Let_def firstByte_def Hash_def)
qed

lemma uint32_timePeriod_in_range:
  assumes "0 \<le> t + fb * 86400 div 256" and "t + fb * 86400 div 256 < 2 ^ 32"
  shows "uint32_timePeriod t fb = spec_timePeriod t fb"
proof -
  have "(t + fb * 86400 div 256) mod 2 ^ 32 = t + fb * 86400 div 256"
    using assms by (rule mod_pos_pos_trivial)
  then show ?thesis
    by (simp only: uint32_timePeriod_def spec_timePeriod_def)
qed

text \<open>
  Claim C6, as the code has it. For a replica of 0 or 1, a key whose DER encoding
  succeeds and every clock \<open>t\<close>, \<^verbatim>\<open>Update\<close> returns without an error and stores
  \<open>descriptorId = Hash (permanentId || Hash (BE32 timePeriod || replica))\<close>, where
  \<open>permanentId\<close> is the first 10 bytes of \<open>Hash (DER key)\<close> and
  \<open>timePeriod = ((t + firstByte * 86400 / 256) mod 2\<^sup>3\<^sup>2) / 86400\<close>: the sum is taken in
  32 bits. Whenever \<open>0 \<le> t + firstByte * 86400 / 256 < 2\<^sup>3\<^sup>2\<close> this is the descriptor id
  of the specification, with \<open>timePeriod = (t + firstByte * 86400 / 256) / 86400\<close>.
\<close>

theorem Update_descriptor_id:
  assumes "replica = 0 \<or> replica = 1"
    and "encodeDER (PermanentKey desc) = Inr der"
  shows "\<exists>desc'. Update encodeDER now desc replica = Return (None, desc') \<and>
           DescID desc' =
             Hash (take 10 (Hash der) @
                   Hash (BE32 (uint32_timePeriod (sint now) (firstByte (take 10 (Hash der))))
                         @ [ucast replica])) \<and>
           (0 \<le> sint now + firstByte (take 10 (Hash der)) * 86400 div 256 \<and>
            sint now + firstByte (take 10 (Hash der)) * 86400 div 256 < 2 ^ 32 \<longrightarrow>
              DescID desc' = spec_descriptorId (take 10 (Hash der)) (sint now) (ucast replica))"
proof -
  have ne: "take 10 (Hash der) \<noteq> []"
    using take10_Hash_Cons [of der] by auto
  have s: "calcSecretID (take 10 (Hash der)) now (ucast replica) =
           Return (Hash (BE32 (uint32_timePeriod (sint now) (firstByte (take 10 (Hash der))))
                         @ [ucast replica]))"
    using ne by (rule calcSecretID_uint32)
  show ?thesis
    using Update_encode_ok [of encodeDER desc der now replica] assms(2) s
    by (auto simp add: spec_descriptorId_def spec_secretId_def calcDescriptorID_def Hash_def
        uint32_timePeriod_in_range)
qed

text \<open>The sample key, replica 1, on 9 September 2001: the two formulas agree.\<close>

theorem Update_descriptor_id_witness:
  "((1 :: 64 word) = 0 \<or> (1 :: 64 word) = 1) \<and>
   sample_encodeDER (PermanentKey sample_desc) = Inr sample_der \<and>
   0 \<le> sint (1000000000 :: 64 word) + firstByte (take 10 (Hash sample_der)) * 86400 div 256 \<and>
   sint (1000000000 :: 64 word) + firstByte (take 10 (Hash sample_der)) * 86400 div 256 < 2 ^ 32 \<and>
   (\<exists>desc'. Update sample_encodeDER 1000000000 sample_desc 1 = Return (None, desc') \<and>
      DescID desc' =
        Hash (take 10 (Hash sample_der) @
              Hash (BE32 (uint32_timePeriod 1000000000 (firstByte (take 10 (Hash sample_der)))) @ [1])) \<and>
      DescID desc' = spec_descriptorId (take 10 (Hash sample_der)) 1000000000 1)"
proof -
  have a: "(1 :: 64 word) = 0 \<or> (1 :: 64 word) = 1" by simp
  have b: "sample_encodeDER (PermanentKey sample_desc) = Inr sample_der"
    by (simp add: sample_encodeDER_def sample_desc_def)
  have "firstByte (take 10 (Hash sample_der)) * 86400 div 256 \<le> 255 * 86400 div 256"
    using firstByte_bounds [of "take 10 (Hash sample_der)"]
    by (intro zdiv_mono1 mult_right_mono) auto
  moreover have "0 \<le> firstByte (take 10 (Hash sample_der)) * 86400 div 256"
    using firstByte_bounds [of "take 10 (Hash sample_der)"]
    by (simp add: pos_imp_zdiv_nonneg_iff)
  ultimately have c: "0 \<le> sint (1000000000 :: 64 word) + firstByte (take 10 (Hash sample_der)) * 86400 div 256"
    and d: "sint (1000000000 :: 64 word) + firstByte (take 10 (Hash sample_der)) * 86400 div 256 < 2 ^ 32"
    by simp_all
  show ?thesis
    using Update_descriptor_id [of 1 sample_encodeDER sample_desc sample_der 1000000000] a b c d
    by simp
qed

text \<open>
  Claim C6 as stated fails: the code converts the clock to \<^verbatim>\<open>uint32\<close> before it adds
  the offset. With a clock of \<open>2\<^sup>3\<^sup>2\<close> seconds (7 February 2106) the code hashes time
  period 0, the formula gives 49711, and the two descriptor ids differ.
\<close>

theorem Update_descriptor_id_counterexample:
  "\<exists>desc'. Update sample_encodeDER 4294967296 sample_desc 0 = Return (None, desc') \<and>
     DescID desc' =
       [110, 201, 113, 180, 4, 113, 184, 230, 50, 17, 101, 53, 24, 232, 11, 200, 11, 223, 123, 221] \<and>
     spec_descriptorId (take 10 (Hash sample_der)) (sint (4294967296 :: 64 word)) (ucast (0 :: 64 word)) =
       [221, 97, 225, 214, 113, 93, 14, 8, 158, 125, 205, 177, 1, 246, 19, 158, 129, 85, 189, 125] \<and>
     DescID desc' \<noteq>
       spec_descriptorId (take 10 (Hash sample_der)) (sint (4294967296 :: 64 word)) (ucast (0 :: 64 word))"
proof -
  have e: "sample_encodeDER (PermanentKey sample_desc) = Inr sample_der"
    by (simp add: sample_encodeDER_def sample_desc_def)
  have p: "take 10 (Hash sample_der) = [234, 167, 212, 167, 156, 215, 110, 186, 97, 181]"
    by (simp add: Hash_sample_der)
  have s: "spec_descriptorId [234, 167, 212, 167, 156, 215, 110, 186, 97, 181] 4294967296 0 =
       [221, 97, 225, 214, 113, 93, 14, 8, 158, 125, 205, 177, 1, 246, 19, 158, 129, 85, 189, 125]"
    by (simp add: spec_descriptorId_def spec_secretId_2106 Hash_def id_spec_2106)
  show ?thesis
    using Update_encode_ok [of sample_encodeDER sample_desc sample_der 4294967296 0] e
    unfolding p
    by (auto simp add: s calcSecretID_2106 calcDescriptorID_def id_code_2106)
qed

text \<open>
  Claim C1, the code at the failing inputs. The range test is written
  \<^verbatim>\<open>!(MinReplica <= replica || replica <= MaxReplica)\<close>, which no integer satisfies. For
  the replicas 2 and -1, both outside [MinReplica, MaxReplica], \<^verbatim>\<open>Update\<close> on the sample
  descriptor returns no error, and version, publicationTime, secretIdPart and
  descriptorId are all overwritten; the claim asks for a range error and an untouched
  descriptor.
\<close>

theorem Update_replica_out_of_range:
  "\<not> (MinReplica \<le>s 2 \<and> 2 \<le>s MaxReplica) \<and> \<not> (MinReplica \<le>s - 1 \<and> - 1 \<le>s MaxReplica) \<and>
   Version sample_desc = 0 \<and> SecretIDPart sample_desc = [] \<and> DescID sample_desc = [] \<and>
   (\<exists>desc'. Update sample_encodeDER 45296 sample_desc 2 = Return (None, desc') \<and>
      Version desc' = 2 \<and> PublicationTime desc' = 43200 \<and>
      length (SecretIDPart desc') = 20 \<and> length (DescID desc') = 20) \<and>
   (\<exists>desc'. Update sample_encodeDER 45296 sample_desc (- 1) = Return (None, desc') \<and>
      Version desc' = 2 \<and> PublicationTime desc' = 43200 \<and>
      length (SecretIDPart desc') = 20 \<and> length (DescID desc') = 20)"
proof -
  have e: "sample_encodeDER (PermanentKey sample_desc) = Inr sample_der"
    by (simp add: sample_encodeDER_def sample_desc_def)
  have r: "\<not> (MinReplica \<le>s 2 \<and> 2 \<le>s MaxReplica)" "\<not> (MinReplica \<le>s - 1 \<and> - 1 \<le>s MaxReplica)"
    by (simp_all add: MinReplica_def MaxReplica_def word_sle_eq)
  have s: "Version sample_desc = 0 \<and> SecretIDPart sample_desc = [] \<and> DescID sample_desc = []"
    by (simp add: sample_desc_def)
  have u: "\<exists>desc'. Update sample_encodeDER 45296 sample_desc replica = Return (None, desc') \<and>
      Version desc' = 2 \<and> PublicationTime desc' = 43200 \<and>
      length (SecretIDPart desc') = 20 \<and> length (DescID desc') = 20" for replica
    using Update_encode_ok [of sample_encodeDER sample_desc sample_der 45296 replica] e
    by (auto simp add: Update_defaults_def DescVersion_def calcDescriptorID_def sha1_sum_length
        dest: calcSecretID_length)
  show ?thesis
    using r s u [of 2] u [of "- 1"] by blast
qed

section \<open>Properties of signing and verification\<close>

lemma decimal_eval:
  "decimal (numeral k) = (if numeral k < (10::nat) then [digit (numeral k)]
      else decimal (numeral k div 10) @ [digit (numeral k mod 10)])"
  "decimal 0 = ''0''" "decimal 1 = ''1''" "decimal (Suc 0) = ''1''"
  by (simp_all add: digit_def)

lemma pem_lines_eval:
  "pem_lines (numeral k) s =
     (if s = [] then [] else take 64 s @ nl @ pem_lines (pred_numeral k) (drop 64 s))"
  by (simp add: numeral_eq_Suc)

lemmas text_eval = decimal_eval pem_lines_eval replicate_eval digit_def format_int_def
  Base32Encode_def ToLower_def upper_case_def lower_case_def b32_char_def b32_quantum_def
  encodeStd_def b64_char_def encodeStd64_def pem_EncodeToMemory_def nl_def
  utc_format_def civil_year_def civil_month_def civil_day_def civil_mp_def civil_doy_def
  civil_yoe_def pad2_def pad4_def

lemma Bytes_sample_desc:
  "Bytes sample_encodeDER utc_format sample_desc = Return (str sample_text)"
  by (simp del: decimal.simps add: Bytes_def sample_encodeDER_def sample_desc_def sample_der_def
      text_eval sample_text_def)

lemma Bytes_sample_signed:
  "Bytes sample_encodeDER utc_format (sample_desc\<lparr>Signature := sample_digest\<rparr>) =
     Return (str (sample_text @ sample_signature_pem))"
  by (simp del: decimal.simps add: Bytes_def sample_encodeDER_def sample_desc_def sample_der_def
      text_eval sample_text_def sample_digest_def sample_signature_pem_def)

lemma Hash_sample_text: "Hash (str sample_text) = sample_digest"
  by (simp add: Hash_def str_def sample_text_def nl_def sample_digest_def sha1_eval)

lemma Hash_sample_signed_text: "Hash (str (sample_text @ sample_signature_pem)) = sample_digest2"
  by (simp add: Hash_def str_def sample_text_def sample_signature_pem_def nl_def
      sample_digest2_def sha1_eval)

lemma Bytes_ignores_nothing_but_key:
  "Bytes encodeDER formatTime desc = Fatal \<or> (\<exists>bs. Bytes encodeDER formatTime desc = Return bs)"
  by (simp add: Bytes_def split: sum.splits)

lemma VerifySignature_Return:
  assumes "Bytes encodeDER formatTime (desc\<lparr>Signature := []\<rparr>) = Return bs"
  shows "VerifySignature encodeDER formatTime verifyPKCS1v15 desc =
           Return (verifyPKCS1v15 (PermanentKey desc) 0 (Hash bs) (Signature desc), desc)"
  using assms by (simp add: VerifySignature_def Let_def)

lemma Sign_Return:
  assumes "Bytes encodeDER formatTime desc = Return bs"
  shows "Sign encodeDER formatTime doSign desc =
           Return (case doSign (Hash bs) of
                     Inl err \<Rightarrow> (Some err, desc)
                   | Inr signature \<Rightarrow> (None, desc\<lparr>Signature := signature\<rparr>))"
  using assms by (simp add: Sign_def Let_def split: sum.splits)

text \<open>
  Claim C7. Whenever \<^verbatim>\<open>VerifySignature\<close> returns, with or without an error, the
  descriptor it leaves behind has the signature it had before the call, and no other
  field has changed: it is the descriptor it was given.
\<close>

theorem VerifySignature_restores_descriptor:
  assumes "VerifySignature encodeDER formatTime verifyPKCS1v15 desc = Return (err, desc')"
  shows "Signature desc' = Signature desc \<and> desc' = desc"
proof (cases "Bytes encodeDER formatTime (desc\<lparr>Signature := []\<rparr>)")
  case (Return bs)
  then show ?thesis
    using assms by (simp add: VerifySignature_Return)
next
  case Panic
  then show ?thesis
    using assms by (simp add: VerifySignature_def Let_def)
next
  case Fatal
  then show ?thesis
    using assms by (simp add: VerifySignature_def Let_def)
qed

lemma sample_unsigned: "sample_desc\<lparr>Signature := []\<rparr> = sample_desc"
  by (simp add: sample_desc_def)

lemma Verify_sample_signed:
  "VerifySignature sample_encodeDER utc_format echo_verify (sample_desc\<lparr>Signature := sample_digest\<rparr>) =
     Return (None, sample_desc\<lparr>Signature := sample_digest\<rparr>)"
  using VerifySignature_Return [of sample_encodeDER utc_format "sample_desc\<lparr>Signature := sample_digest\<rparr>"
      "str sample_text" echo_verify]
  by (simp add: sample_unsigned Bytes_sample_desc Hash_sample_text echo_verify_def)

lemma Verify_sample_unsigned:
  "VerifySignature sample_encodeDER utc_format echo_verify sample_desc =
     Return (Some ''crypto/rsa: verification error'', sample_desc)"
  using VerifySignature_Return [of sample_encodeDER utc_format sample_desc "str sample_text" echo_verify]
  by (simp add: sample_unsigned Bytes_sample_desc Hash_sample_text echo_verify_def)
     (simp add: sample_desc_def sample_digest_def)

text \<open>
  The sample descriptor carrying the digest of its own unsigned serialization verifies;
  without a signature it does not. Both calls return the descriptor they were given.
\<close>

theorem VerifySignature_restores_descriptor_witness:
  "(\<exists>desc'. VerifySignature sample_encodeDER utc_format echo_verify
               (sample_desc\<lparr>Signature := sample_digest\<rparr>) = Return (None, desc') \<and>
      Signature desc' = sample_digest \<and> desc' = sample_desc\<lparr>Signature := sample_digest\<rparr>) \<and>
   (\<exists>desc'. VerifySignature sample_encodeDER utc_format echo_verify sample_desc =
               Return (Some ''crypto/rsa: verification error'', desc') \<and>
      Signature desc' = [] \<and> desc' = sample_desc)"
proof -
  have a: "Signature (sample_desc\<lparr>Signature := sample_digest\<rparr>) = Signature (sample_desc\<lparr>Signature := sample_digest\<rparr>) \<and>
        sample_desc\<lparr>Signature := sample_digest\<rparr> = sample_desc\<lparr>Signature := sample_digest\<rparr>"
    using Verify_sample_signed by (rule VerifySignature_restores_descriptor)
  have b: "Signature sample_desc = Signature sample_desc \<and> sample_desc = sample_desc"
    using Verify_sample_unsigned by (rule VerifySignature_restores_descriptor)
  have s: "Signature sample_desc = []"
    by (simp add: sample_desc_def)
  show ?thesis
    using a b s Verify_sample_signed Verify_sample_unsigned by simp
qed

lemma Sign_then_Verify_unsigned:
  assumes "Signature desc = []"
    and "Bytes encodeDER formatTime desc = Return bs"
    and "doSign (Hash bs) = Inr signature"
    and "verifyPKCS1v15 (PermanentKey desc) 0 (Hash bs) signature = None"
  shows "\<exists>desc'. Sign encodeDER formatTime doSign desc = Return (None, desc') \<and>
           VerifySignature encodeDER formatTime verifyPKCS1v15 desc' = Return (None, desc')"
proof -
  have u: "desc\<lparr>Signature := signature, Signature := []\<rparr> = desc"
    using assms(1) by simp
  have "VerifySignature encodeDER formatTime verifyPKCS1v15 (desc\<lparr>Signature := signature\<rparr>) =
          Return (None, desc\<lparr>Signature := signature\<rparr>)"
    using VerifySignature_Return [of encodeDER formatTime "desc\<lparr>Signature := signature\<rparr>" bs verifyPKCS1v15]
      assms(2,4) u by simp
  then show ?thesis
    using Sign_Return [of encodeDER formatTime desc bs doSign] assms(2,3) by simp
qed

text \<open>
  Claim C3, the code at the failing input. A descriptor that has no signature is signed
  (the callback returns the digest it is handed) and verifies. Signing the now signed
  descriptor again hashes the serialization that still contains the old
  \<^verbatim>\<open>SIGNATURE\<close> block, not the one with the signature field empty, and the new
  signature is refused by \<^verbatim>\<open>VerifySignature\<close>, which clears the field before it hashes.
\<close>

theorem Sign_signed_descriptor_keeps_old_signature:
  "Sign sample_encodeDER utc_format echo_sign sample_desc =
     Return (None, sample_desc\<lparr>Signature := sample_digest\<rparr>) \<and>
   VerifySignature sample_encodeDER utc_format echo_verify (sample_desc\<lparr>Signature := sample_digest\<rparr>) =
     Return (None, sample_desc\<lparr>Signature := sample_digest\<rparr>) \<and>
   Sign sample_encodeDER utc_format echo_sign (sample_desc\<lparr>Signature := sample_digest\<rparr>) =
     Return (None, sample_desc\<lparr>Signature := sample_digest2\<rparr>) \<and>
   VerifySignature sample_encodeDER utc_format echo_verify (sample_desc\<lparr>Signature := sample_digest2\<rparr>) =
     Return (Some ''crypto/rsa: verification error'', sample_desc\<lparr>Signature := sample_digest2\<rparr>) \<and>
   sample_digest = Hash (str sample_text) \<and>
   sample_digest2 = Hash (str (sample_text @ sample_signature_pem)) \<and>
   sample_digest2 \<noteq> sample_digest"
proof -
  have a: "Sign sample_encodeDER utc_format echo_sign sample_desc =
     Return (None, sample_desc\<lparr>Signature := sample_digest\<rparr>)"
    using Sign_Return [of sample_encodeDER utc_format sample_desc "str sample_text" echo_sign]
    by (simp add: Bytes_sample_desc Hash_sample_text echo_sign_def)
  have c: "Sign sample_encodeDER utc_format echo_sign (sample_desc\<lparr>Signature := sample_digest\<rparr>) =
     Return (None, sample_desc\<lparr>Signature := sample_digest2\<rparr>)"
    using Sign_Return [of sample_encodeDER utc_format "sample_desc\<lparr>Signature := sample_digest\<rparr>"
        "str (sample_text @ sample_signature_pem)" echo_sign]
    by (simp add: Bytes_sample_signed Hash_sample_signed_text echo_sign_def)
  have ne: "sample_digest2 \<noteq> sample_digest"
    by (simp add: sample_digest_def sample_digest2_def)
  have d: "VerifySignature sample_encodeDER utc_format echo_verify (sample_desc\<lparr>Signature := sample_digest2\<rparr>) =
     Return (Some ''crypto/rsa: verification error'', sample_desc\<lparr>Signature := sample_digest2\<rparr>)"
    using VerifySignature_Return [of sample_encodeDER utc_format "sample_desc\<lparr>Signature := sample_digest2\<rparr>"
        "str sample_text" echo_verify] ne
    by (simp add: sample_unsigned Bytes_sample_desc Hash_sample_text echo_verify_def)
  show ?thesis
    using a Verify_sample_signed c d ne
    by (simp add: Hash_sample_text Hash_sample_signed_text)
qed

end
